theory Spec2Isabelle
  imports Complex_Main "HOL-Library.Product_Lexorder"
begin

section \<open>Collections: floor-ask cache and revalidation (models/collections/index.ts)\<close>

text \<open>
  The tables are lists of rows, each row a record of the columns the statements read or
  write. Nullable columns are options (\<open>None\<close> is SQL NULL). Addresses and ids keep their
  textual form; \<open>toBuffer\<close> (not part of the sources at hand) is read as the identity on
  that form.
\<close>

record order_row =
  o_id :: string
  o_token_set_id :: string
  o_side :: string
  o_fillability_status :: string
  o_approval_status :: string
  o_taker :: "string option"
  o_value :: int
  o_fee_bps :: int
  o_source_id_int :: "int option"
  o_valid_between :: "(int \<times> int) option"

record ftoken_row =
  t_contract :: string
  t_token_id :: string
  t_collection_id :: "string option"
  t_floor_sell_id :: "string option"
  t_floor_sell_value :: "int option"
  t_floor_sell_maker :: "string option"

record token_sets_tokens_row =
  tst_token_set_id :: string
  tst_contract :: string
  tst_token_id :: string

record token_set_row =
  ts_id :: string
  ts_collection_id :: "string option"
  ts_attribute_id :: "nat option"

record collection_row =
  c_id :: string
  c_floor_sell_id :: "string option"
  c_floor_sell_value :: "int option"
  c_floor_sell_maker :: "string option"
  c_floor_sell_source_id_int :: "int option"
  c_floor_sell_valid_between :: "(int \<times> int) option"
  c_updated_at :: int

record cdb =
  orders :: "order_row list"
  tokens :: "ftoken_row list"
  token_sets_tokens :: "token_sets_tokens_row list"
  token_sets :: "token_set_row list"
  collections :: "collection_row list"

text \<open>The row \<open>x\<close> produced by the sub-select of \<open>recalculateCollectionFloorSell\<close>.\<close>

record floor_x =
  x_floor_sell_id :: "string option"
  x_floor_sell_value :: "int option"
  x_floor_sell_maker :: "string option"
  x_source_id_int :: "int option"
  x_valid_between :: "(int \<times> int) option"

text \<open>
  \<open>ORDER BY col\<close> is ascending with NULLs last; the key puts every NULL after every value.
  Rows with equal keys keep their table order (one of the orders SQL allows).
\<close>

definition nulls_last :: "int option \<Rightarrow> nat \<times> int" where
  "nulls_last v = (case v of None \<Rightarrow> (1, 0) | Some n \<Rightarrow> (0, n))"

definition limit1 :: "'a list \<Rightarrow> 'a option" where
  "limit1 rows = (case rows of [] \<Rightarrow> None | r # _ \<Rightarrow> Some r)"

definition floorSellJoin :: "cdb \<Rightarrow> string \<Rightarrow> floor_x list" where
  "floorSellJoin db collection =
     concat (map (\<lambda>t. concat (map (\<lambda>ord.
        if t_floor_sell_id t = Some (o_id ord) \<and> t_collection_id t = Some collection
        then [\<lparr> x_floor_sell_id = t_floor_sell_id t,
                x_floor_sell_value = t_floor_sell_value t,
                x_floor_sell_maker = t_floor_sell_maker t,
                x_source_id_int = o_source_id_int ord,
                x_valid_between = o_valid_between ord \<rparr>]
        else []) (orders db))) (tokens db))"

definition floorSellQuery :: "cdb \<Rightarrow> string \<Rightarrow> floor_x option" where
  "floorSellQuery db collection =
     limit1 (sort_key (\<lambda>x. nulls_last (x_floor_sell_value x)) (floorSellJoin db collection))"

text \<open>
  \<open>UPDATE collections SET ... FROM (...) x WHERE collections.id = $/collection/ AND (... IS
  DISTINCT FROM ...)\<close>: \<open>IS DISTINCT FROM\<close> is inequality with NULL as an ordinary value. The
  result is the new database and the number of rows written.
\<close>

definition floorDiffers :: "collection_row \<Rightarrow> floor_x \<Rightarrow> bool" where
  "floorDiffers r x \<longleftrightarrow>
     c_floor_sell_id r \<noteq> x_floor_sell_id x \<or> c_floor_sell_value r \<noteq> x_floor_sell_value x"

definition writeFloor :: "floor_x \<Rightarrow> int \<Rightarrow> collection_row \<Rightarrow> collection_row" where
  "writeFloor x now r =
     r\<lparr> c_floor_sell_id := x_floor_sell_id x,
        c_floor_sell_value := x_floor_sell_value x,
        c_floor_sell_maker := x_floor_sell_maker x,
        c_floor_sell_source_id_int := x_source_id_int x,
        c_floor_sell_valid_between := x_valid_between x,
        c_updated_at := now \<rparr>"

definition recalculateCollectionFloorSell :: "cdb \<Rightarrow> string \<Rightarrow> int \<Rightarrow> cdb \<times> nat" where
  "recalculateCollectionFloorSell db collection now =
     (case floorSellQuery db collection of
        None \<Rightarrow> (db, 0)
      | Some x \<Rightarrow>
          (db\<lparr> collections :=
                map (\<lambda>r. if c_id r = collection \<and> floorDiffers r x then writeFloor x now r else r)
                    (collections db) \<rparr>,
           length (filter (\<lambda>r. c_id r = collection \<and> floorDiffers r x) (collections db))))"

subsection \<open>Revalidation of the best order of a collection\<close>

datatype js_error =
    TypeErrorNull string
  | TypeErrorUndefined string
  | MultipleRows
  | InvalidNumeric string
  | KeyUnresolved string
  | AttributeUnresolved string

record revalidation_job =
  j_context :: string
  j_id :: string
  j_trigger_kind :: string

definition zeroAddress :: string where
  "zeroAddress = ''0x0000000000000000000000000000000000000000''"

definition openOrder :: "string \<Rightarrow> order_row \<Rightarrow> bool" where
  "openOrder sd ord \<longleftrightarrow>
     o_side ord = sd \<and> o_fillability_status ord = ''fillable'' \<and>
     o_approval_status ord = ''approved'' \<and>
     (o_taker ord = Some zeroAddress \<or> o_taker ord = None)"

definition floorAskJoin :: "cdb \<Rightarrow> string \<Rightarrow> order_row list" where
  "floorAskJoin db collection =
     concat (map (\<lambda>ord. concat (map (\<lambda>tst. concat (map (\<lambda>t.
        if o_token_set_id ord = tst_token_set_id tst \<and>
           tst_contract tst = t_contract t \<and> tst_token_id tst = t_token_id t \<and>
           t_collection_id t = Some collection \<and> openOrder ''sell'' ord
        then [ord] else []) (tokens db))) (token_sets_tokens db))) (orders db))"

definition floorAskQuery :: "cdb \<Rightarrow> string \<Rightarrow> string option" where
  "floorAskQuery db collection =
     map_option o_id (limit1 (sort_key (\<lambda>ord. (o_value ord, o_fee_bps ord)) (floorAskJoin db collection)))"

definition topBuyJoin :: "cdb \<Rightarrow> string \<Rightarrow> order_row list" where
  "topBuyJoin db collection =
     concat (map (\<lambda>ord. concat (map (\<lambda>ts.
        if o_token_set_id ord = ts_id ts \<and> ts_collection_id ts = Some collection \<and>
           ts_attribute_id ts = None \<and> openOrder ''buy'' ord
        then [ord] else []) (token_sets db))) (orders db))"

definition topBuyQuery :: "cdb \<Rightarrow> string \<Rightarrow> string option" where
  "topBuyQuery db collection =
     map_option o_id (limit1 (sort_key (\<lambda>ord. - o_value ord) (topBuyJoin db collection)))"

text \<open>
  \<open>oneOrNone\<close> resolves to \<open>null\<close> when the query returns no row. The handler then reads
  \<open>result.id\<close> without a guard: on \<open>null\<close> that read throws a TypeError. An id that is the
  empty string is falsy and takes the empty \<open>else\<close> branch. The result is the list of jobs
  handed to \<open>orderUpdatesById.addToQueue\<close>; \<open>now\<close> is the rendering of \<open>now()\<close>.
\<close>

definition revalidateCollectionFloorAsk :: "cdb \<Rightarrow> string \<Rightarrow> string \<Rightarrow> js_error + revalidation_job list" where
  "revalidateCollectionFloorAsk db collection now =
     (case floorAskQuery db collection of
        None \<Rightarrow> Inl (TypeErrorNull ''id'')
      | Some oid \<Rightarrow>
          if oid \<noteq> []
          then Inr [\<lparr> j_context = ''revalidate-collection-floor-sell-'' @ oid @ ''-'' @ now,
                      j_id = oid, j_trigger_kind = ''revalidation'' \<rparr>]
          else Inr [])"

definition revalidateCollectionTopBuy :: "cdb \<Rightarrow> string \<Rightarrow> string \<Rightarrow> js_error + revalidation_job list" where
  "revalidateCollectionTopBuy db collection now =
     (case topBuyQuery db collection of
        None \<Rightarrow> Inl (TypeErrorNull ''id'')
      | Some oid \<Rightarrow>
          if oid \<noteq> []
          then Inr [\<lparr> j_context = ''revalidate-collection-top-buy-'' @ oid @ ''-'' @ now,
                      j_id = oid, j_trigger_kind = ''revalidation'' \<rparr>]
          else Inr [])"

section \<open>Attribute indexing worker (metadata-index-write-queue)\<close>

record job_attribute =
  a_key :: string
  a_value :: string
  a_kind :: string
  a_rank :: "int option"

record token_metadata_info =
  i_collection :: string
  i_contract :: string
  i_tokenId :: string
  i_name :: "string option"
  i_description :: "string option"
  i_imageUrl :: "string option"
  i_mediaUrl :: "string option"
  i_attributes :: "job_attribute list"

record token_row =
  tk_contract :: string
  tk_token_id :: string
  tk_name :: "string option"
  tk_description :: "string option"
  tk_image :: "string option"
  tk_media :: "string option"
  tk_attributes :: "(string \<times> string option) list option"
  tk_metadata_indexed :: "bool option"
  tk_updated_at :: int

text \<open>
  \<open>ak_info\<close> is the jsonb column \<open>info\<close>: NULL, or an object with the two members
  \<open>min_range\<close> and \<open>max_range\<close>. A member is JSON null, a JSON number (what the INSERT
  writes from \<open>Number(value)\<close>) or a JSON string holding the text of a numeric (what the
  UPDATE writes, through \<open>jsonb_object\<close> over a \<open>text[]\<close>). The text of a numeric is kept
  as the number it reads back as; other members of the object are not modelled.
\<close>

datatype jbound = JNull | JNumber rat | JText rat

record attribute_key_row =
  ak_id :: nat
  ak_collection_id :: string
  ak_key :: string
  ak_kind :: string
  ak_rank :: "int option"
  ak_info :: "(jbound \<times> jbound) option"
  ak_attribute_count :: int

record attribute_row =
  at_id :: nat
  at_attribute_key_id :: nat
  at_value :: string
  at_sell_updated_at :: int
  at_buy_updated_at :: int
  at_collection_id :: string
  at_kind :: string
  at_key :: string
  at_token_count :: int
  at_sample_images :: "string list option"

record token_attribute_row =
  ta_contract :: string
  ta_token_id :: string
  ta_attribute_id :: nat
  ta_collection_id :: string
  ta_key :: string
  ta_value :: string

datatype recount = KeyRecount string string | ValueRecount string string string

record idb =
  token_rows :: "token_row list"
  attribute_keys :: "attribute_key_row list"
  attributes :: "attribute_row list"
  token_attributes :: "token_attribute_row list"
  resync_jobs :: "recount list"

subsection \<open>pg-promise result shapes and JavaScript truthiness\<close>

definition oneOrNone :: "'a list \<Rightarrow> js_error + 'a option" where
  "oneOrNone rows = (case rows of [] \<Rightarrow> Inr None | [r] \<Rightarrow> Inr (Some r) | _ \<Rightarrow> Inl MultipleRows)"

text \<open>\<open>s || null\<close>: an absent or empty string becomes NULL.\<close>

definition orNull :: "string option \<Rightarrow> string option" where
  "orNull s = (case s of None \<Rightarrow> None | Some v \<Rightarrow> if v = [] then None else Some v)"

text \<open>\<open>result?.id\<close> as a condition: a missing row, a NULL id and the id 0 are all falsy.\<close>

definition truthyId :: "nat option \<Rightarrow> nat option" where
  "truthyId r = (case r of None \<Rightarrow> None | Some i \<Rightarrow> if i = 0 then None else Some i)"

text \<open>
  Modelled from the spec: the schema (migrations) is not part of the sources at hand.
  AttributeKey is identified by (collectionId, key), Attribute by (attributeKeyId, value),
  TokenAttribute by (contract, tokenId, attributeId): these are the unique keys that
  \<open>ON CONFLICT DO NOTHING\<close> reacts to. Ids come from a sequence: a new id is larger than
  every id in the table. Counters start at 0 and \<open>sample_images\<close> at NULL.
\<close>

definition freshId :: "nat list \<Rightarrow> nat" where
  "freshId ids = Suc (fold max ids 0)"

subsection \<open>The statements of the worker\<close>

definition tokenMatches :: "token_metadata_info \<Rightarrow> token_row \<Rightarrow> bool" where
  "tokenMatches job t \<longleftrightarrow> tk_contract t = i_contract job \<and> tk_token_id t = i_tokenId job"

definition hstoreOf :: "job_attribute list \<Rightarrow> (string \<times> string option) list option" where
  "hstoreOf attrs =
     (if attrs = [] then None
      else Some (remdups (map (\<lambda>a. (a_key a @ '','' @ a_value a, None)) attrs)))"

text \<open>\<open>UPDATE tokens SET ... WHERE contract, token_id RETURNING 1\<close>, read by \<open>oneOrNone\<close>.\<close>

definition updateTokenMetadata :: "token_metadata_info \<Rightarrow> int \<Rightarrow> idb \<Rightarrow> (js_error + unit option) \<times> idb" where
  "updateTokenMetadata job now db =
     (oneOrNone (map (\<lambda>t. ()) (filter (tokenMatches job) (token_rows db))),
      db\<lparr> token_rows :=
           map (\<lambda>t. if tokenMatches job t
                     then t\<lparr> tk_name := orNull (i_name job),
                             tk_description := orNull (i_description job),
                             tk_image := orNull (i_imageUrl job),
                             tk_media := orNull (i_mediaUrl job),
                             tk_attributes := hstoreOf (i_attributes job),
                             tk_updated_at := now \<rparr>
                     else t) (token_rows db) \<rparr>)"

definition linkOfToken :: "token_metadata_info \<Rightarrow> token_attribute_row \<Rightarrow> bool" where
  "linkOfToken job r \<longleftrightarrow> ta_contract r = i_contract job \<and> ta_token_id r = i_tokenId job"

text \<open>\<open>DELETE FROM token_attributes WHERE contract, token_id RETURNING key, value\<close>.\<close>

definition deleteTokenAttributes :: "token_metadata_info \<Rightarrow> idb \<Rightarrow> (string \<times> string) list \<times> idb" where
  "deleteTokenAttributes job db =
     (map (\<lambda>r. (ta_key r, ta_value r)) (filter (linkOfToken job) (token_attributes db)),
      db\<lparr> token_attributes := filter (\<lambda>r. \<not> linkOfToken job r) (token_attributes db) \<rparr>)"

definition scheduleRefresh :: "string \<Rightarrow> (string \<times> string) list \<Rightarrow> idb \<Rightarrow> idb" where
  "scheduleRefresh coll removed db =
     db\<lparr> resync_jobs := resync_jobs db @
            concat (map (\<lambda>(k, v). [KeyRecount coll k, ValueRecount coll k v]) removed) \<rparr>"

text \<open>
  The two readings of an attribute value. \<open>numeric\<close> is the cast \<open>$/value/::numeric\<close> of
  the UPDATE (\<open>None\<close>: the text is not a numeric, the cast fails). \<open>jsNumber\<close> is
  \<open>Number(value)\<close> of the INSERT path as JSON carries it: the number that
  \<open>JSON.stringify\<close> writes for the double the text reads as, \<open>None\<close> for NaN and the
  infinities, which it writes as null. Both are functions of the platform and are
  parameters here.
\<close>

definition jsonNumber :: "rat option \<Rightarrow> jbound" where
  "jsonNumber d = (case d of None \<Rightarrow> JNull | Some x \<Rightarrow> JNumber x)"

text \<open>\<open>(info->>'min_range')::numeric\<close>: NULL for JSON null, else the number.\<close>

definition readBound :: "jbound \<Rightarrow> rat option" where
  "readBound b = (case b of JNull \<Rightarrow> None | JNumber x \<Rightarrow> Some x | JText x \<Rightarrow> Some x)"


text \<open>
  The range update. A comparison with a NULL bound is NULL, so the \<open>ELSE\<close> arm keeps the
  NULL bound; any other bound is written back as text, widened or not. \<open>info || ...\<close> with
  \<open>info\<close> NULL is NULL.
\<close>

definition widenMin :: "rat \<Rightarrow> jbound \<Rightarrow> jbound" where
  "widenMin v m = (case readBound m of None \<Rightarrow> JNull | Some x \<Rightarrow> JText (if x > v then v else x))"

definition widenMax :: "rat \<Rightarrow> jbound \<Rightarrow> jbound" where
  "widenMax v m = (case readBound m of None \<Rightarrow> JNull | Some x \<Rightarrow> JText (if x < v then v else x))"

definition widenInfo :: "rat \<Rightarrow> (jbound \<times> jbound) option \<Rightarrow> (jbound \<times> jbound) option" where
  "widenInfo v info =
     (case info of None \<Rightarrow> None | Some (mn, mx) \<Rightarrow> Some (widenMin v mn, widenMax v mx))"

definition keyMatches :: "string \<Rightarrow> string \<Rightarrow> attribute_key_row \<Rightarrow> bool" where
  "keyMatches coll key r \<longleftrightarrow> ak_collection_id r = coll \<and> ak_key r = key"

definition newInfo :: "rat \<Rightarrow> attribute_key_row \<Rightarrow> (jbound \<times> jbound) option" where
  "newInfo v r = (if ak_kind r = ''number'' then widenInfo v (ak_info r) else None)"

text \<open>
  \<open>UPDATE attribute_keys SET info = CASE WHEN kind = 'number' THEN ... END WHERE
  collection_id, key RETURNING id\<close>. The value is written into the statement as a literal
  under a cast, \<open>'...'::numeric\<close>, which PostgreSQL evaluates when it analyses the statement:
  a value that is not a numeric fails the statement whatever rows it would touch, and
  nothing is written.
\<close>

definition updateAttributeKeys :: "(string \<Rightarrow> rat option) \<Rightarrow> string \<Rightarrow> job_attribute \<Rightarrow> idb \<Rightarrow> (js_error + nat option) \<times> idb" where
  "updateAttributeKeys numeric coll a db =
     (case numeric (a_value a) of
        None \<Rightarrow> (Inl (InvalidNumeric (a_value a)), db)
      | Some v \<Rightarrow>
          (oneOrNone (map ak_id (filter (keyMatches coll (a_key a)) (attribute_keys db))),
           db\<lparr> attribute_keys :=
                map (\<lambda>r. if keyMatches coll (a_key a) r then r\<lparr> ak_info := newInfo v r \<rparr> else r)
                    (attribute_keys db) \<rparr>))"

definition rankOrNull :: "int option \<Rightarrow> int option" where
  "rankOrNull r = (case r of None \<Rightarrow> None | Some n \<Rightarrow> if n = 0 then None else Some n)"

text \<open>
  \<open>INSERT INTO attribute_keys ... ON CONFLICT DO NOTHING RETURNING id\<close>, with
  \<open>info = { min_range: Number(value), max_range: Number(value) }\<close> when the job's kind is
  \<open>number\<close> and null otherwise.
\<close>

definition insertAttributeKey :: "(string \<Rightarrow> rat option) \<Rightarrow> string \<Rightarrow> job_attribute \<Rightarrow> idb \<Rightarrow> nat option \<times> idb" where
  "insertAttributeKey jsNumber coll a db =
     (if list_ex (keyMatches coll (a_key a)) (attribute_keys db) then (None, db)
      else (let nid = freshId (map ak_id (attribute_keys db)) in
            (Some nid,
             db\<lparr> attribute_keys := attribute_keys db @
                  [\<lparr> ak_id = nid, ak_collection_id = coll, ak_key = a_key a,
                     ak_kind = a_kind a, ak_rank = rankOrNull (a_rank a),
                     ak_info = (if a_kind a = ''number''
                                then Some (jsonNumber (jsNumber (a_value a)),
                                           jsonNumber (jsNumber (a_value a)))
                                else None),
                     ak_attribute_count = 0 \<rparr>] \<rparr>)))"

text \<open>
  Lines 450 to 500: what the worker does with the result of the UPDATE. With no id it
  inserts the key; with no id from the INSERT either it throws. No further statement is
  issued between the INSERT and the throw.
\<close>

definition saveAttributeKey :: "(string \<Rightarrow> rat option) \<Rightarrow> string \<Rightarrow> job_attribute \<Rightarrow> nat option \<Rightarrow> idb \<Rightarrow> (js_error + nat) \<times> idb" where
  "saveAttributeKey jsNumber coll a upd db =
     (case truthyId upd of
        Some kid \<Rightarrow> (Inr kid, db)
      | None \<Rightarrow>
          (case insertAttributeKey jsNumber coll a db of
             (ins, db') \<Rightarrow>
               (case truthyId ins of
                  Some kid \<Rightarrow> (Inr kid, db')
                | None \<Rightarrow> (Inl (KeyUnresolved (a_key a)), db'))))"

definition resolveAttributeKey :: "(string \<Rightarrow> rat option) \<Rightarrow> (string \<Rightarrow> rat option) \<Rightarrow> string \<Rightarrow> job_attribute \<Rightarrow> idb \<Rightarrow> (js_error + nat) \<times> idb" where
  "resolveAttributeKey numeric jsNumber coll a db =
     (case updateAttributeKeys numeric coll a db of
        (Inl e, db1) \<Rightarrow> (Inl e, db1)
      | (Inr upd, db1) \<Rightarrow> saveAttributeKey jsNumber coll a upd db1)"


definition attrMatches :: "nat \<Rightarrow> string \<Rightarrow> attribute_row \<Rightarrow> bool" where
  "attrMatches kid value r \<longleftrightarrow> at_attribute_key_id r = kid \<and> at_value r = value"

definition selectAttribute :: "nat \<Rightarrow> string \<Rightarrow> idb \<Rightarrow> js_error + nat option" where
  "selectAttribute kid value db =
     oneOrNone (map at_id (filter (attrMatches kid value) (attributes db)))"

text \<open>
  \<open>WITH x AS (INSERT INTO attributes ... ON CONFLICT DO NOTHING RETURNING id) UPDATE
  attribute_keys SET attribute_count = attribute_count + (SELECT COUNT(*) FROM x) WHERE id =
  $/attributeKeyId/ RETURNING (SELECT x.id FROM x), attribute_count\<close>. \<open>x\<close> holds the id of
  the row the INSERT created, or nothing; every updated key row returns that id or NULL.
\<close>

definition insertAttribute :: "string \<Rightarrow> nat \<Rightarrow> job_attribute \<Rightarrow> int \<Rightarrow> idb \<Rightarrow> (js_error + nat option) \<times> idb" where
  "insertAttribute coll kid a now db =
     (let nid = freshId (map at_id (attributes db));
          x = (if list_ex (attrMatches kid (a_value a)) (attributes db) then [] else [nid])
      in (case oneOrNone (map (\<lambda>k. limit1 x) (filter (\<lambda>k. ak_id k = kid) (attribute_keys db))) of
            Inl e \<Rightarrow> Inl e
          | Inr None \<Rightarrow> Inr None
          | Inr (Some xid) \<Rightarrow> Inr xid,
          db\<lparr> attributes := attributes db @
                 map (\<lambda>i. \<lparr> at_id = i, at_attribute_key_id = kid, at_value = a_value a,
                            at_sell_updated_at = now, at_buy_updated_at = now,
                            at_collection_id = coll, at_kind = a_kind a, at_key = a_key a,
                            at_token_count = 0, at_sample_images = None \<rparr>) x,
               attribute_keys :=
                 map (\<lambda>k. if ak_id k = kid
                           then k\<lparr> ak_attribute_count := ak_attribute_count k + int (length x) \<rparr>
                           else k) (attribute_keys db) \<rparr>))"

definition saveAttribute :: "string \<Rightarrow> nat \<Rightarrow> job_attribute \<Rightarrow> int \<Rightarrow> nat option \<Rightarrow> idb \<Rightarrow> (js_error + nat) \<times> idb" where
  "saveAttribute coll kid a now sel db =
     (case truthyId sel of
        Some aid \<Rightarrow> (Inr aid, db)
      | None \<Rightarrow>
          (case insertAttribute coll kid a now db of
             (Inl e, db') \<Rightarrow> (Inl e, db')
           | (Inr ins, db') \<Rightarrow>
               (case truthyId ins of
                  Some aid \<Rightarrow> (Inr aid, db')
                | None \<Rightarrow> (Inl (AttributeUnresolved (a_value a)), db'))))"

subsection \<open>The sample images of an attribute\<close>

text \<open>
  SQL conditions are three-valued (\<open>None\<close> is NULL/unknown); a \<open>WHEN\<close> arm is taken only
  when its condition is true. \<open>array_length\<close> of an empty array is NULL.
\<close>

definition sql_or :: "bool option \<Rightarrow> bool option \<Rightarrow> bool option" where
  "sql_or a b =
     (if a = Some True \<or> b = Some True then Some True
      else if a = None \<or> b = None then None else Some False)"

definition sql_and :: "bool option \<Rightarrow> bool option \<Rightarrow> bool option" where
  "sql_and a b =
     (if a = Some False \<or> b = Some False then Some False
      else if a = None \<or> b = None then None else Some True)"

definition array_length1 :: "string list option \<Rightarrow> nat option" where
  "array_length1 arr =
     (case arr of None \<Rightarrow> None | Some xs \<Rightarrow> if xs = [] then None else Some (length xs))"

definition array_position_is_null :: "string list option \<Rightarrow> string \<Rightarrow> bool" where
  "array_position_is_null arr e = (case arr of None \<Rightarrow> True | Some xs \<Rightarrow> e \<notin> set xs)"

definition array_prepend :: "string \<Rightarrow> string list option \<Rightarrow> string list option" where
  "array_prepend e arr = Some (e # (case arr of None \<Rightarrow> [] | Some xs \<Rightarrow> xs))"

definition subscript4 :: "string list option \<Rightarrow> string option" where
  "subscript4 arr =
     (case arr of None \<Rightarrow> None | Some xs \<Rightarrow> if 4 \<le> length xs then Some (xs ! 3) else None)"

definition array_remove :: "string list option \<Rightarrow> string option \<Rightarrow> string list option" where
  "array_remove arr e =
     (case arr of None \<Rightarrow> None
      | Some xs \<Rightarrow> (case e of None \<Rightarrow> Some xs | Some v \<Rightarrow> Some (removeAll v xs)))"

definition sampleImageUpdate :: "string \<Rightarrow> string list option \<Rightarrow> string list option" where
  "sampleImageUpdate img sample_images =
     (let len = array_length1 sample_images;
          absent = Some (array_position_is_null sample_images img)
      in if sql_and (sql_or (Some (sample_images = None)) (map_option (\<lambda>n. n < 4) len)) absent
              = Some True
         then array_prepend img sample_images
         else if sql_and (map_option (\<lambda>n. 4 \<le> n) len) absent = Some True
         then array_prepend img (array_remove sample_images (subscript4 sample_images))
         else sample_images)"

definition linkMatches :: "token_metadata_info \<Rightarrow> nat \<Rightarrow> token_attribute_row \<Rightarrow> bool" where
  "linkMatches job aid r \<longleftrightarrow>
     ta_contract r = i_contract job \<and> ta_token_id r = i_tokenId job \<and> ta_attribute_id r = aid"

text \<open>
  \<open>WITH x AS (INSERT INTO token_attributes ... ON CONFLICT DO NOTHING RETURNING 1) UPDATE
  attributes SET token_count = token_count + (SELECT COUNT(*) FROM x) [, sample_images = ...]
  WHERE id = $/attributeId/\<close>. The \<open>sample_images\<close> assignment is part of the statement only
  when \<open>imageUrl\<close> is truthy.
\<close>

definition insertTokenAttribute :: "token_metadata_info \<Rightarrow> nat \<Rightarrow> job_attribute \<Rightarrow> idb \<Rightarrow> idb" where
  "insertTokenAttribute job aid a db =
     (let x = (if list_ex (linkMatches job aid) (token_attributes db) then [] else [()])
      in db\<lparr> token_attributes := token_attributes db @
                map (\<lambda>u. \<lparr> ta_contract = i_contract job, ta_token_id = i_tokenId job,
                           ta_attribute_id = aid, ta_collection_id = i_collection job,
                           ta_key = a_key a, ta_value = a_value a \<rparr>) x,
              attributes :=
                map (\<lambda>r. if at_id r = aid
                          then r\<lparr> at_token_count := at_token_count r + int (length x),
                                  at_sample_images :=
                                    (case orNull (i_imageUrl job) of
                                       None \<Rightarrow> at_sample_images r
                                     | Some img \<Rightarrow> sampleImageUpdate img (at_sample_images r)) \<rparr>
                          else r) (attributes db) \<rparr>)"

subsection \<open>The job\<close>

definition processAttribute :: "(string \<Rightarrow> rat option) \<Rightarrow> (string \<Rightarrow> rat option) \<Rightarrow> token_metadata_info \<Rightarrow> int \<Rightarrow> job_attribute \<Rightarrow> idb \<Rightarrow> (js_error + unit) \<times> idb" where
  "processAttribute numeric jsNumber job now a db =
     (case resolveAttributeKey numeric jsNumber (i_collection job) a db of
        (Inl e, db1) \<Rightarrow> (Inl e, db1)
      | (Inr kid, db1) \<Rightarrow>
          (case selectAttribute kid (a_value a) db1 of
             Inl e \<Rightarrow> (Inl e, db1)
           | Inr sel \<Rightarrow>
               (case saveAttribute (i_collection job) kid a now sel db1 of
                  (Inl e, db2) \<Rightarrow> (Inl e, db2)
                | (Inr aid, db2) \<Rightarrow> (Inr (), insertTokenAttribute job aid a db2))))"

fun processAttributes :: "(string \<Rightarrow> rat option) \<Rightarrow> (string \<Rightarrow> rat option) \<Rightarrow> token_metadata_info \<Rightarrow> int \<Rightarrow> job_attribute list \<Rightarrow> idb \<Rightarrow> (js_error + unit) \<times> idb" where
  "processAttributes numeric jsNumber job now [] db = (Inr (), db)"
| "processAttributes numeric jsNumber job now (a # as) db =
     (case processAttribute numeric jsNumber job now a db of
        (Inl e, db') \<Rightarrow> (Inl e, db')
      | (Inr u, db') \<Rightarrow> processAttributes numeric jsNumber job now as db')"

definition markMetadataIndexed :: "token_metadata_info \<Rightarrow> idb \<Rightarrow> idb" where
  "markMetadataIndexed job db =
     db\<lparr> token_rows :=
          map (\<lambda>t. if tokenMatches job t \<and> tk_metadata_indexed t \<noteq> Some True
                    then t\<lparr> tk_metadata_indexed := Some True \<rparr> else t) (token_rows db) \<rparr>"

text \<open>
  The worker. The result is the outcome of the job (\<open>Inl\<close>: the error rethrown to the
  queue, which retries the job) and the database as the job leaves it: there is no
  transaction around the statements, so what ran before a throw stays written.
\<close>

definition worker :: "(string \<Rightarrow> rat option) \<Rightarrow> (string \<Rightarrow> rat option) \<Rightarrow> token_metadata_info \<Rightarrow> int \<Rightarrow> idb \<Rightarrow> (js_error + unit) \<times> idb" where
  "worker numeric jsNumber job now db =
     (case updateTokenMetadata job now db of
        (Inl e, db1) \<Rightarrow> (Inl e, db1)
      | (Inr None, db1) \<Rightarrow> (Inr (), db1)
      | (Inr (Some u), db1) \<Rightarrow>
          (case deleteTokenAttributes job db1 of
             (removed, db2) \<Rightarrow>
               (case processAttributes numeric jsNumber job now (i_attributes job)
                       (scheduleRefresh (i_collection job) removed db2) of
                  (Inl e, db3) \<Rightarrow> (Inl e, db3)
                | (Inr u, db3) \<Rightarrow> (Inr (), markMetadataIndexed job db3))))"

subsection \<open>Replaying a job: what a run leaves settled\<close>

text \<open>
  Notions used to compare a second run of a job with the first. An attribute of a job is
  settled in a database when its key row and its attribute row exist, once each, with ids
  that are not 0, the key row carries no range unless its kind is \<open>number\<close>, and the sample
  images of the attribute row already take in the job's image. \<open>addLink\<close> and \<open>linkUpdate\<close>
  are the two halves of the statement that links a token; \<open>withoutCount\<close> forgets
  \<open>token_count\<close>, \<open>withoutRange\<close> forgets the range of the keys of kind \<open>number\<close>.
\<close>

definition plainKey :: "attribute_key_row \<Rightarrow> bool" where
  "plainKey k \<longleftrightarrow> ak_kind k = ''number'' \<or> ak_info k = None"

definition keySettled :: "string \<Rightarrow> job_attribute \<Rightarrow> nat \<Rightarrow> attribute_key_row list \<Rightarrow> bool" where
  "keySettled coll a kid keys \<longleftrightarrow>
     (\<exists>k. filter (keyMatches coll (a_key a)) keys = [k] \<and> ak_id k = kid \<and> kid \<noteq> 0 \<and> plainKey k)"


definition attrSettled :: "job_attribute \<Rightarrow> nat \<Rightarrow> nat \<Rightarrow> attribute_row list \<Rightarrow> bool" where
  "attrSettled a kid aid attrs \<longleftrightarrow>
     (\<exists>r. filter (attrMatches kid (a_value a)) attrs = [r] \<and> at_id r = aid \<and> aid \<noteq> 0)"

definition sampleFixed :: "token_metadata_info \<Rightarrow> attribute_row \<Rightarrow> bool" where
  "sampleFixed job r \<longleftrightarrow>
     (case orNull (i_imageUrl job) of
        None \<Rightarrow> True
      | Some img \<Rightarrow> sampleImageUpdate img (at_sample_images r) = at_sample_images r)"

definition samplesFixed :: "token_metadata_info \<Rightarrow> nat \<Rightarrow> attribute_row list \<Rightarrow> bool" where
  "samplesFixed job aid attrs \<longleftrightarrow> (\<forall>r\<in>set attrs. at_id r = aid \<longrightarrow> sampleFixed job r)"

definition settled :: "token_metadata_info \<Rightarrow> job_attribute \<Rightarrow> nat \<Rightarrow> idb \<Rightarrow> bool" where
  "settled job a aid db \<longleftrightarrow>
     (\<exists>kid. keySettled (i_collection job) a kid (attribute_keys db) \<and>
            attrSettled a kid aid (attributes db) \<and> samplesFixed job aid (attributes db))"




definition linkUpdate :: "token_metadata_info \<Rightarrow> nat \<Rightarrow> int \<Rightarrow> attribute_row \<Rightarrow> attribute_row" where
  "linkUpdate job i n r =
     (if at_id r = i
      then r\<lparr> at_token_count := at_token_count r + n,
              at_sample_images :=
                (case orNull (i_imageUrl job) of
                   None \<Rightarrow> at_sample_images r
                 | Some img \<Rightarrow> sampleImageUpdate img (at_sample_images r)) \<rparr>
      else r)"


section \<open>Bid event feed (api/endpoints/events/get-bid-events/v1.ts)\<close>

text \<open>
  The handler receives the query after validation: \<open>sortDirection\<close> is \<open>asc\<close> or \<open>desc\<close>
  and \<open>limit\<close> a whole number. A row of \<open>bid_events\<close> keeps its id, its \<open>created_at\<close> (seconds
  since the epoch, with a fraction) and some of the payload columns; the response objects are
  built from the rows one by one and are not modelled apart from them.

  Modelled from the spec: \<open>buildContinuation\<close> and \<open>splitContinuation\<close> (common/utils) are
  not among the sources. The token opaquely encodes the \<open>(createdAt, id)\<close> of the last row
  returned, so a continuation is that pair. Passing \<open>created_at\<close> through a JavaScript
  number and back through \<open>to_timestamp\<close> is taken to be exact.
\<close>

datatype sort_direction = Asc | Desc

record bid_event =
  e_id :: int
  e_kind :: string
  e_status :: string
  e_contract :: string
  e_order_id :: string
  e_created_at :: rat

record feed_query =
  q_contract :: "string option"
  q_startTimestamp :: "rat option"
  q_endTimestamp :: "rat option"
  q_sortDirection :: sort_direction
  q_continuation :: "(rat \<times> int) option"
  q_limit :: nat

record feed_page =
  p_events :: "bid_event list"
  p_continuation :: "(rat \<times> int) option"

text \<open>
  \<open>if (!query.startTimestamp) query.startTimestamp = 0\<close>, and likewise 9999999999 for the
  end: a missing bound and the bound 0 are both falsy.
\<close>

definition startOf :: "feed_query \<Rightarrow> rat" where
  "startOf q = (case q_startTimestamp q of None \<Rightarrow> 0 | Some s \<Rightarrow> if s = 0 then 0 else s)"

definition endOf :: "feed_query \<Rightarrow> rat" where
  "endOf q = (case q_endTimestamp q of None \<Rightarrow> 9999999999 | Some e \<Rightarrow> if e = 0 then 9999999999 else e)"

definition eventKey :: "bid_event \<Rightarrow> rat \<times> int" where
  "eventKey e = (e_created_at e, e_id e)"

text \<open>
  The row comparison \<open>(created_at, id) > (cursor)\<close> (or \<open><\<close>) is lexicographic, as is the
  order on pairs used here. The contract filter is added when \<open>query.contract\<close> is truthy.
\<close>

definition cursorOk :: "sort_direction \<Rightarrow> rat \<times> int \<Rightarrow> bid_event \<Rightarrow> bool" where
  "cursorOk dir c e = (case dir of Asc \<Rightarrow> c < eventKey e | Desc \<Rightarrow> eventKey e < c)"

definition feedConditions :: "feed_query \<Rightarrow> bid_event \<Rightarrow> bool" where
  "feedConditions q e \<longleftrightarrow>
     startOf q \<le> e_created_at e \<and> e_created_at e \<le> endOf q \<and>
     (case q_contract q of None \<Rightarrow> True | Some c \<Rightarrow> c = [] \<or> e_contract e = c) \<and>
     (case q_continuation q of None \<Rightarrow> True | Some c \<Rightarrow> cursorOk (q_sortDirection q) c e)"

definition orderBy :: "sort_direction \<Rightarrow> bid_event list \<Rightarrow> bid_event list" where
  "orderBy dir rows = (case dir of Asc \<Rightarrow> sort_key eventKey rows | Desc \<Rightarrow> rev (sort_key eventKey rows))"

text \<open>
  The filter as the request states it, in the spec's words: the events of the contract, when
  one is given, created between \<open>startTimestamp\<close> and \<open>endTimestamp\<close>, both inclusive, the
  bounds being 0 and 9999999999 where the request gives none. This is what "matching
  event" means below; \<open>feedConditions\<close> above is what the handler filters by.
\<close>

definition matchesRequest :: "feed_query \<Rightarrow> bid_event \<Rightarrow> bool" where
  "matchesRequest q e \<longleftrightarrow>
     (case q_startTimestamp q of None \<Rightarrow> 0 | Some s \<Rightarrow> s) \<le> e_created_at e \<and>
     e_created_at e \<le> (case q_endTimestamp q of None \<Rightarrow> 9999999999 | Some t \<Rightarrow> t) \<and>
     (case q_contract q of None \<Rightarrow> True | Some c \<Rightarrow> e_contract e = c)"

text \<open>
  \<open>ORDER BY created_at dir, id dir LIMIT limit\<close>, then the continuation: built from the last
  row when the page is full. A full page of no rows (limit 0, which validation excludes)
  reads \<open>created_at\<close> of \<open>undefined\<close> and throws.
\<close>

definition handler :: "bid_event list \<Rightarrow> feed_query \<Rightarrow> js_error + feed_page" where
  "handler evs q =
     (let rawResult = take (q_limit q) (orderBy (q_sortDirection q) (filter (feedConditions q) evs))
      in if length rawResult = q_limit q
         then (case rawResult of
                 [] \<Rightarrow> Inl (TypeErrorUndefined ''created_at'')
               | r # rs \<Rightarrow> Inr \<lparr> p_events = rawResult, p_continuation = Some (eventKey (last rawResult)) \<rparr>)
         else Inr \<lparr> p_events = rawResult, p_continuation = None \<rparr>)"

text \<open>
  The reader of the feed: request a page, and while the page carries a continuation, request
  the next page with it. The result is the list of pages received.
\<close>

function followFeed :: "bid_event list \<Rightarrow> feed_query \<Rightarrow> js_error + feed_page list" where
  "followFeed evs q =
     (case handler evs q of
        Inl e \<Rightarrow> Inl e
      | Inr p \<Rightarrow>
          (case p_continuation p of
             None \<Rightarrow> Inr [p]
           | Some c \<Rightarrow>
               (case followFeed evs (q\<lparr> q_continuation := Some c \<rparr>) of
                  Inl e \<Rightarrow> Inl e
                | Inr ps \<Rightarrow> Inr (p # ps))))"
  by pat_completeness auto
termination
proof (relation "measure (\<lambda>(evs, q). case q_continuation q of
          None \<Rightarrow> Suc (length evs)
        | Some c \<Rightarrow> length (filter (cursorOk (q_sortDirection q) c) evs))")
  show "wf (measure (\<lambda>(evs, q). case q_continuation q of
          None \<Rightarrow> Suc (length evs)
        | Some c \<Rightarrow> length (filter (cursorOk (q_sortDirection q) c) evs)))"
    by simp
next
  fix evs :: "bid_event list" and q :: feed_query and p c
  assume h: "handler evs q = Inr p" and pc: "p_continuation p = Some c"
  define raw where "raw = take (q_limit q) (orderBy (q_sortDirection q) (filter (feedConditions q) evs))"
  from h pc have ne: "raw \<noteq> []" and c: "c = eventKey (last raw)"
    by (auto simp: handler_def Let_def raw_def[symmetric] split: if_splits list.splits)
  have "set raw \<subseteq> set (filter (feedConditions q) evs)"
    unfolding raw_def orderBy_def using set_take_subset
    by (cases "q_sortDirection q") (auto dest: in_set_takeD)
  with ne have mem: "last raw \<in> set evs" and cond: "feedConditions q (last raw)"
    using last_in_set by fastforce+
  have irr: "\<not> cursorOk (q_sortDirection q) c (last raw)"
    by (simp add: cursorOk_def c split: sort_direction.splits)
  show "((evs, q\<lparr>q_continuation := Some c\<rparr>), (evs, q)) \<in> measure (\<lambda>(evs, q). case q_continuation q of
          None \<Rightarrow> Suc (length evs)
        | Some c \<Rightarrow> length (filter (cursorOk (q_sortDirection q) c) evs))"
  proof (cases "q_continuation q")
    case None
    then show ?thesis by (simp add: le_imp_less_Suc)
  next
    case (Some c0)
    with cond have ok0: "cursorOk (q_sortDirection q) c0 (last raw)"
      by (simp add: feedConditions_def)
    have imp: "\<And>e. cursorOk (q_sortDirection q) c e \<Longrightarrow> cursorOk (q_sortDirection q) c0 e"
      using ok0 by (auto simp: cursorOk_def c split: sort_direction.splits)
    have "filter (cursorOk (q_sortDirection q) c) evs =
          filter (cursorOk (q_sortDirection q) c) (filter (cursorOk (q_sortDirection q) c0) evs)"
      using imp by (auto intro: filter_cong)
    moreover have "length (filter (cursorOk (q_sortDirection q) c) (filter (cursorOk (q_sortDirection q) c0) evs))
       < length (filter (cursorOk (q_sortDirection q) c0) evs)"
      using mem ok0 irr by (intro length_filter_less[where x = "last raw"]) auto
    ultimately show ?thesis using Some by simp
  qed
qed

declare followFeed.simps [simp del]

text \<open>
  Every page but the last is full and carries a continuation; the last is short and carries
  none.
\<close>

definition pagesWellFormed :: "nat \<Rightarrow> feed_page list \<Rightarrow> bool" where
  "pagesWellFormed limit pages \<longleftrightarrow>
     pages \<noteq> [] \<and>
     list_all (\<lambda>p. length (p_events p) = limit \<and> p_continuation p \<noteq> None) (butlast pages) \<and>
     length (p_events (last pages)) < limit \<and> p_continuation (last pages) = None"

section \<open>Example data\<close>

text \<open>One collection with a cached floor; its only order is cancelled and its token carries no floor order.\<close>

definition staleDb :: cdb where
  "staleDb =
     \<lparr> orders = [\<lparr> o_id = ''0xo1'', o_token_set_id = ''token:0xc:1'', o_side = ''sell'',
                   o_fillability_status = ''cancelled'', o_approval_status = ''approved'',
                   o_taker = None, o_value = 5, o_fee_bps = 0, o_source_id_int = Some 1,
                   o_valid_between = Some (0, 10) \<rparr>],
       tokens = [\<lparr> t_contract = ''0xc'', t_token_id = ''1'', t_collection_id = Some ''col'',
                   t_floor_sell_id = None, t_floor_sell_value = None, t_floor_sell_maker = None \<rparr>],
       token_sets_tokens = [\<lparr> tst_token_set_id = ''token:0xc:1'', tst_contract = ''0xc'',
                              tst_token_id = ''1'' \<rparr>],
       token_sets = [\<lparr> ts_id = ''token:0xc:1'', ts_collection_id = Some ''col'',
                       ts_attribute_id = None \<rparr>],
       collections = [\<lparr> c_id = ''col'', c_floor_sell_id = Some ''0xo1'', c_floor_sell_value = Some 5,
                         c_floor_sell_maker = Some ''0xm'', c_floor_sell_source_id_int = Some 1,
                         c_floor_sell_valid_between = Some (0, 10), c_updated_at = 100 \<rparr>] \<rparr>"


text \<open>One collection whose cached floor id and value equal those of its only listed token.\<close>

definition freshDb :: cdb where
  "freshDb =
     \<lparr> orders = [\<lparr> o_id = ''0xo1'', o_token_set_id = ''token:0xc:1'', o_side = ''sell'',
                   o_fillability_status = ''fillable'', o_approval_status = ''approved'',
                   o_taker = None, o_value = 5, o_fee_bps = 0, o_source_id_int = Some 1,
                   o_valid_between = Some (0, 10) \<rparr>],
       tokens = [\<lparr> t_contract = ''0xc'', t_token_id = ''1'', t_collection_id = Some ''col'',
                   t_floor_sell_id = Some ''0xo1'', t_floor_sell_value = Some 5,
                   t_floor_sell_maker = Some ''0xm'' \<rparr>],
       token_sets_tokens = [],
       token_sets = [],
       collections = [\<lparr> c_id = ''col'', c_floor_sell_id = Some ''0xo1'', c_floor_sell_value = Some 5,
                         c_floor_sell_maker = Some ''0xold'', c_floor_sell_source_id_int = None,
                         c_floor_sell_valid_between = None, c_updated_at = 100 \<rparr>] \<rparr>"

text \<open>
  A token, a metadata job for it, and the dictionary in two states: empty, and with the key
  \<open>level\<close> and its value 5 already created.

  \<open>numeric0\<close> and \<open>jsNumber0\<close> are the two readings on the literals the examples use. They
  differ on 9007199254740993, which is 2^53 + 1: it lies halfway between the doubles 2^53
  and 2^53 + 2, and \<open>Number\<close> rounds it to the even one, 9007199254740992.
\<close>

definition numeric0 :: "string \<Rightarrow> rat option" where
  "numeric0 = [''3'' \<mapsto> 3, ''5'' \<mapsto> 5, ''7'' \<mapsto> 7,
               ''9007199254740993'' \<mapsto> 9007199254740993]"

definition jsNumber0 :: "string \<Rightarrow> rat option" where
  "jsNumber0 = [''3'' \<mapsto> 3, ''5'' \<mapsto> 5, ''7'' \<mapsto> 7,
                ''9007199254740993'' \<mapsto> 9007199254740992]"

definition levelAttr :: "string \<Rightarrow> job_attribute" where
  "levelAttr v = \<lparr> a_key = ''level'', a_value = v, a_kind = ''number'', a_rank = None \<rparr>"

definition levelJob :: token_metadata_info where
  "levelJob = \<lparr> i_collection = ''col'', i_contract = ''0xc'', i_tokenId = ''1'',
       i_name = Some ''One'', i_description = None, i_imageUrl = Some ''img1'', i_mediaUrl = None,
       i_attributes = [levelAttr ''7''] \<rparr>"


definition tokenOne :: token_row where
  "tokenOne = \<lparr> tk_contract = ''0xc'', tk_token_id = ''1'', tk_name = None, tk_description = None,
       tk_image = None, tk_media = None, tk_attributes = None, tk_metadata_indexed = None,
       tk_updated_at = 0 \<rparr>"

definition oneTokenDb :: idb where
  "oneTokenDb = \<lparr> token_rows = [tokenOne], attribute_keys = [], attributes = [],
       token_attributes = [], resync_jobs = [] \<rparr>"

definition levelKeyRow :: attribute_key_row where
  "levelKeyRow = \<lparr> ak_id = 1, ak_collection_id = ''col'', ak_key = ''level'', ak_kind = ''number'',
       ak_rank = None, ak_info = Some (JNumber 5, JNumber 5), ak_attribute_count = 1 \<rparr>"

definition levelFiveRow :: attribute_row where
  "levelFiveRow = \<lparr> at_id = 1, at_attribute_key_id = 1, at_value = ''5'', at_sell_updated_at = 0,
       at_buy_updated_at = 0, at_collection_id = ''col'', at_kind = ''number'', at_key = ''level'',
       at_token_count = 1, at_sample_images = None \<rparr>"

definition racedDb :: idb where
  "racedDb = \<lparr> token_rows = [tokenOne], attribute_keys = [levelKeyRow], attributes = [levelFiveRow],
       token_attributes = [], resync_jobs = [] \<rparr>"


text \<open>
  A bid-event log with two events sharing \<open>created_at\<close>; a query for one contract and the
  window from 5 to 25; and the same query with \<open>endTimestamp = 0\<close>.
\<close>

definition bidEvent :: "int \<Rightarrow> rat \<Rightarrow> string \<Rightarrow> bid_event" where
  "bidEvent i t c = \<lparr> e_id = i, e_kind = ''new-order'', e_status = ''active'', e_contract = c,
      e_order_id = ''0xo1'', e_created_at = t \<rparr>"

definition feedLog :: "bid_event list" where
  "feedLog = [bidEvent 3 20 ''0xc'', bidEvent 2 10 ''0xc'', bidEvent 4 15 ''0xd'',
              bidEvent 1 10 ''0xc'', bidEvent 5 30 ''0xc'', bidEvent 6 2 ''0xc'']"

definition feedQuery :: feed_query where
  "feedQuery = \<lparr> q_contract = Some ''0xc'', q_startTimestamp = Some 5, q_endTimestamp = Some 25,
      q_sortDirection = Asc, q_continuation = None, q_limit = 2 \<rparr>"

definition feedQueryZero :: feed_query where
  "feedQueryZero = feedQuery\<lparr> q_startTimestamp := None, q_endTimestamp := Some 0 \<rparr>"

section \<open>Properties of the collection floor cache and of revalidation\<close>

lemma map_unchanged: "(\<And>r. r \<in> set xs \<Longrightarrow> f r = r) \<Longrightarrow> map f xs = xs"
  by (induction xs) auto

lemma freshDb_query:
  "floorSellQuery freshDb ''col'' = Some \<lparr> x_floor_sell_id = Some ''0xo1'', x_floor_sell_value = Some 5,
      x_floor_sell_maker = Some ''0xm'', x_source_id_int = Some 1, x_valid_between = Some (0, 10) \<rparr>"
  by (simp add: floorSellQuery_def floorSellJoin_def freshDb_def limit1_def)

lemma revalidate_without_candidate:
  "floorAskJoin db c = [] \<Longrightarrow> revalidateCollectionFloorAsk db c now = Inl (TypeErrorNull ''id'')"
  "topBuyJoin db c = [] \<Longrightarrow> revalidateCollectionTopBuy db c now = Inl (TypeErrorNull ''id'')"
  by (simp_all add: revalidateCollectionFloorAsk_def revalidateCollectionTopBuy_def floorAskQuery_def
      topBuyQuery_def limit1_def)

text \<open>
  C1. With no sell order (or buy order) of the collection that is fillable, approved and
  open to any taker, the revalidation should enqueue nothing and complete. The code does
  not complete: the query result is \<open>null\<close> and reading its \<open>id\<close> throws. Evaluated on a
  collection whose only order is cancelled.
\<close>

theorem revalidate_no_candidate_throws:
  "revalidateCollectionFloorAsk staleDb ''col'' ''1700000000'' = Inl (TypeErrorNull ''id'') \<and>
   revalidateCollectionTopBuy staleDb ''col'' ''1700000000'' = Inl (TypeErrorNull ''id'')"
  by (simp add: revalidateCollectionFloorAsk_def revalidateCollectionTopBuy_def floorAskQuery_def
      topBuyQuery_def floorAskJoin_def topBuyJoin_def openOrder_def staleDb_def limit1_def)

text \<open>
  C4. If the floor computed for the collection has the id and the value already stored on
  the collection row, \<open>recalculateCollectionFloorSell\<close> writes no row: the database,
  \<open>updated_at\<close> included, is unchanged.
\<close>

theorem floor_write_avoidance:
  assumes "floorSellQuery db c = Some x"
    and "\<forall>r\<in>set (collections db). c_id r = c \<longrightarrow>
           c_floor_sell_id r = x_floor_sell_id x \<and> c_floor_sell_value r = x_floor_sell_value x"
  shows "recalculateCollectionFloorSell db c now = (db, 0)"
proof -
  have no: "\<And>r. r \<in> set (collections db) \<Longrightarrow> \<not> (c_id r = c \<and> floorDiffers r x)"
    using assms(2) by (auto simp: floorDiffers_def)
  then have m: "map (\<lambda>r. if c_id r = c \<and> floorDiffers r x then writeFloor x now r else r) (collections db)
        = collections db"
    by (intro map_unchanged) auto
  have f: "filter (\<lambda>r. c_id r = c \<and> floorDiffers r x) (collections db) = []"
    using no by (auto simp: filter_empty_conv)
  show ?thesis
    using assms(1) by (simp add: recalculateCollectionFloorSell_def m f)
qed

theorem floor_write_avoidance_witness:
  "recalculateCollectionFloorSell freshDb ''col'' 200 = (freshDb, 0) \<and>
   map c_updated_at (collections freshDb) = [100] \<and>
   map c_floor_sell_maker (collections freshDb) = [Some ''0xold'']"
proof -
  have "\<forall>r\<in>set (collections freshDb). c_id r = ''col'' \<longrightarrow>
          c_floor_sell_id r = Some ''0xo1'' \<and> c_floor_sell_value r = Some 5"
    by (simp add: freshDb_def)
  then have "recalculateCollectionFloorSell freshDb ''col'' 200 = (freshDb, 0)"
    using floor_write_avoidance[OF freshDb_query, of 200] by simp
  then show ?thesis by (simp add: freshDb_def)
qed

text \<open>
  C10. If no token of the collection carries a floor-sell order that exists in \<open>orders\<close>,
  the sub-select returns no row and \<open>recalculateCollectionFloorSell\<close> writes nothing: a
  floor cached earlier stays on the collection row, it is not reset to NULL.
\<close>

theorem floor_no_candidate_no_write:
  assumes "\<forall>t\<in>set (tokens db). \<forall>ord\<in>set (orders db).
             \<not> (t_floor_sell_id t = Some (o_id ord) \<and> t_collection_id t = Some c)"
  shows "floorSellQuery db c = None \<and> recalculateCollectionFloorSell db c now = (db, 0)"
proof -
  have "floorSellJoin db c = []"
    using assms by (auto simp: floorSellJoin_def)
  then have "floorSellQuery db c = None"
    by (simp add: floorSellQuery_def limit1_def)
  then show ?thesis by (simp add: recalculateCollectionFloorSell_def)
qed

theorem floor_no_candidate_no_write_witness:
  "recalculateCollectionFloorSell staleDb ''col'' 200 = (staleDb, 0) \<and>
   map c_floor_sell_id (collections staleDb) = [Some ''0xo1''] \<and>
   map c_floor_sell_value (collections staleDb) = [Some 5]"
proof -
  have "\<forall>t\<in>set (tokens staleDb). \<forall>ord\<in>set (orders staleDb).
             \<not> (t_floor_sell_id t = Some (o_id ord) \<and> t_collection_id t = Some ''col'')"
    by (simp add: staleDb_def)
  from floor_no_candidate_no_write[OF this, of 200]
  show ?thesis by (simp add: staleDb_def)
qed

section \<open>Properties of the attribute indexing worker\<close>

text \<open>
  C9. A job whose (contract, tokenId) matches no row of \<open>tokens\<close> completes without an
  error (so the queue does not retry it) and leaves the whole database as it was: no key,
  attribute or link is touched.
\<close>

theorem missing_token_noop:
  assumes "\<not> list_ex (tokenMatches job) (token_rows db)"
  shows "worker numeric jsNumber job now db = (Inr (), db)"
proof -
  have none: "\<And>t. t \<in> set (token_rows db) \<Longrightarrow> \<not> tokenMatches job t"
    using assms by (auto simp: list_ex_iff)
  then have f: "filter (tokenMatches job) (token_rows db) = []"
    by (auto simp: filter_empty_conv)
  have u: "updateTokenMetadata job now db = (Inr None, db)"
    using none by (simp add: updateTokenMetadata_def f oneOrNone_def map_unchanged)
  show ?thesis by (simp add: worker_def u)
qed

theorem missing_token_noop_witness:
  "worker numeric0 jsNumber0 (levelJob\<lparr> i_tokenId := ''2'' \<rparr>) 50 racedDb = (Inr (), racedDb)"
proof -
  have "\<not> list_ex (tokenMatches (levelJob\<lparr> i_tokenId := ''2'' \<rparr>)) (token_rows racedDb)"
    by (simp add: tokenMatches_def levelJob_def racedDb_def tokenOne_def)
  then show ?thesis by (rule missing_token_noop)
qed

text \<open>
  C2 as stated fails: when the UPDATE has found no key and the INSERT then meets a row that a
  concurrent job has created in between, the worker throws at once, although a lookup at
  that moment would return the id. \<open>racedDb\<close> is the database after the other job's insert.
\<close>

theorem key_race_counterexample:
  "fst (updateAttributeKeys numeric0 ''col'' (levelAttr ''7'') oneTokenDb) = Inr None \<and>
   saveAttributeKey jsNumber0 ''col'' (levelAttr ''7'') None racedDb = (Inl (KeyUnresolved ''level''), racedDb) \<and>
   oneOrNone (map ak_id (filter (keyMatches ''col'' ''level'') (attribute_keys racedDb))) = Inr (Some 1)"
  by (simp add: updateAttributeKeys_def saveAttributeKey_def insertAttributeKey_def truthyId_def
      oneOrNone_def keyMatches_def levelAttr_def oneTokenDb_def racedDb_def levelKeyRow_def numeric0_def)

text \<open>
  C2, amended. After an UPDATE that returned no id the worker issues the INSERT and nothing
  else: if a row for (collection, key) exists by then, the job fails with the key error and
  the database is as the INSERT found it (the queue retries the job); otherwise the new
  key's id is the result.
\<close>

theorem key_unresolved_fails_at_once:
  "saveAttributeKey jsNumber coll a None db =
     (if list_ex (keyMatches coll (a_key a)) (attribute_keys db)
      then (Inl (KeyUnresolved (a_key a)), db)
      else (Inr (freshId (map ak_id (attribute_keys db))), snd (insertAttributeKey jsNumber coll a db)))"
  by (simp add: saveAttributeKey_def insertAttributeKey_def truthyId_def freshId_def Let_def)

theorem key_unresolved_fails_at_once_witness:
  "saveAttributeKey jsNumber0 ''col'' (levelAttr ''7'') None racedDb = (Inl (KeyUnresolved ''level''), racedDb) \<and>
   fst (saveAttributeKey jsNumber0 ''col'' (levelAttr ''7'') None oneTokenDb) = Inr 1"
  using key_unresolved_fails_at_once[of jsNumber0 "''col''" "levelAttr ''7''" racedDb]
    key_unresolved_fails_at_once[of jsNumber0 "''col''" "levelAttr ''7''" oneTokenDb]
  by (simp add: keyMatches_def levelAttr_def oneTokenDb_def racedDb_def levelKeyRow_def freshId_def)

lemma sampleImageUpdate_None: "sampleImageUpdate img None = Some [img]"
  by (simp add: sampleImageUpdate_def Let_def array_length1_def array_position_is_null_def
      sql_and_def sql_or_def array_prepend_def)

lemma sampleImageUpdate_Some:
  "sampleImageUpdate img (Some xs) =
     (if xs = [] \<or> img \<in> set xs then Some xs
      else if length xs < 4 then Some (img # xs)
      else Some (img # removeAll (xs ! 3) xs))"
  by (auto simp: sampleImageUpdate_def Let_def array_length1_def array_position_is_null_def
      sql_and_def sql_or_def array_prepend_def array_remove_def subscript4_def)

text \<open>
  C8. Sample images: from NULL, five distinct images a, b, c, d, e leave [e, d, c, b]; an
  image already in the list leaves it unchanged; a list of at most four distinct images
  stays one, a new image going to the front; and the statement that links a token applies
  this update to the attribute row whenever the job has an image.
\<close>

theorem sample_images_ring:
  "(distinct [a, b, c, d, e] \<longrightarrow> fold sampleImageUpdate [a, b, c, d, e] None = Some [e, d, c, b]) \<and>
   (img \<in> set xs \<longrightarrow> sampleImageUpdate img (Some xs) = Some xs) \<and>
   (length xs \<le> 4 \<and> distinct xs \<longrightarrow>
      (\<exists>ys. sampleImageUpdate img (Some xs) = Some ys \<and> length ys \<le> 4 \<and> distinct ys \<and>
            (img \<notin> set xs \<and> xs \<noteq> [] \<longrightarrow> hd ys = img))) \<and>
   (i_imageUrl job = Some img \<and> img \<noteq> [] \<longrightarrow>
      map at_sample_images (attributes (insertTokenAttribute job aid a' db)) =
      map (\<lambda>r. if at_id r = aid then sampleImageUpdate img (at_sample_images r)
                else at_sample_images r) (attributes db))"
proof (intro conjI impI)
  assume "i_imageUrl job = Some img \<and> img \<noteq> []"
  then show "map at_sample_images (attributes (insertTokenAttribute job aid a' db)) =
      map (\<lambda>r. if at_id r = aid then sampleImageUpdate img (at_sample_images r)
                else at_sample_images r) (attributes db)"
    by (simp add: insertTokenAttribute_def Let_def orNull_def)
next
  assume dist: "distinct [a, b, c, d, e]"
  have s1: "sampleImageUpdate a None = Some [a]" by (rule sampleImageUpdate_None)
  have s2: "sampleImageUpdate b (Some [a]) = Some [b, a]"
    using dist by (auto simp: sampleImageUpdate_Some)
  have s3: "sampleImageUpdate c (Some [b, a]) = Some [c, b, a]"
    using dist by (auto simp: sampleImageUpdate_Some)
  have s4: "sampleImageUpdate d (Some [c, b, a]) = Some [d, c, b, a]"
    using dist by (auto simp: sampleImageUpdate_Some)
  have s5: "sampleImageUpdate e (Some [d, c, b, a]) = Some [e, d, c, b]"
    using dist by (auto simp: sampleImageUpdate_Some)
  show "fold sampleImageUpdate [a, b, c, d, e] None = Some [e, d, c, b]"
    by (simp add: s1 s2 s3 s4 s5)
next
  assume "img \<in> set xs"
  then show "sampleImageUpdate img (Some xs) = Some xs"
    by (simp add: sampleImageUpdate_Some)
next
  assume h: "length xs \<le> 4 \<and> distinct xs"
  show "\<exists>ys. sampleImageUpdate img (Some xs) = Some ys \<and> length ys \<le> 4 \<and> distinct ys \<and>
            (img \<notin> set xs \<and> xs \<noteq> [] \<longrightarrow> hd ys = img)"
  proof (cases "xs = [] \<or> img \<in> set xs")
    case True
    then show ?thesis using h by (auto simp: sampleImageUpdate_Some)
  next
    case False
    show ?thesis
    proof (cases "length xs < 4")
      case True
      then show ?thesis using h False by (auto simp: sampleImageUpdate_Some)
    next
      case False
      then have l4: "length xs = 4" using h by simp
      then have "xs ! 3 \<in> set xs" by simp
      then have "length (removeAll (xs ! 3) xs) < length xs"
        by (metis length_removeAll_less)
      then show ?thesis using h l4 \<open>\<not> (xs = [] \<or> img \<in> set xs)\<close>
        by (auto simp: sampleImageUpdate_Some distinct_removeAll)
    qed
  qed
qed

theorem sample_images_ring_witness:
  "fold sampleImageUpdate [''a'', ''b'', ''c'', ''d'', ''e''] None = Some [''e'', ''d'', ''c'', ''b''] \<and>
   sampleImageUpdate ''c'' (Some [''e'', ''d'', ''c'', ''b'']) = Some [''e'', ''d'', ''c'', ''b''] \<and>
   (\<exists>ys. sampleImageUpdate ''f'' (Some [''e'', ''d'', ''c'', ''b'']) = Some ys \<and> length ys \<le> 4 \<and>
      distinct ys \<and> hd ys = ''f'') \<and>
   map at_sample_images (attributes (insertTokenAttribute levelJob 1 (levelAttr ''5'') racedDb)) =
     [Some [''img1'']]"
  using sample_images_ring[where a = "''a''" and b = "''b''" and c = "''c''" and d = "''d''"
      and e = "''e''" and img = "''c''" and xs = "[''e'', ''d'', ''c'', ''b'']"]
    sample_images_ring[where a = "''a''" and b = "''b''" and c = "''c''" and d = "''d''"
      and e = "''e''" and img = "''f''" and xs = "[''e'', ''d'', ''c'', ''b'']"]
    sample_images_ring[where img = "''img1''" and job = levelJob and aid = 1
      and a' = "levelAttr ''5''" and db = racedDb]
  by (simp add: levelJob_def racedDb_def levelFiveRow_def sampleImageUpdate_None)

text \<open>
  C6. The statement that inserts an attribute adds to \<open>attribute_count\<close> of the key the number
  of rows it created: 0 when an attribute with that (key id, value) exists, 1 otherwise. The
  statement that links a token adds to \<open>token_count\<close> of the attribute the number of links
  it inserted, again 0 or 1. This holds in every database state, whatever other writers did
  before the statement ran.
\<close>

theorem counters_follow_inserted_rows:
  "(case insertAttribute coll kid a now db of
      (r, db') \<Rightarrow>
        (\<exists>created. attributes db' = attributes db @ created \<and>
           length created = (if list_ex (attrMatches kid (a_value a)) (attributes db) then 0 else 1) \<and>
           map ak_attribute_count (attribute_keys db') =
             map (\<lambda>k. ak_attribute_count k + (if ak_id k = kid then int (length created) else 0))
                 (attribute_keys db))) \<and>
   (case insertTokenAttribute job aid a db of
      db' \<Rightarrow>
        (\<exists>inserted. token_attributes db' = token_attributes db @ inserted \<and>
           length inserted = (if list_ex (linkMatches job aid) (token_attributes db) then 0 else 1) \<and>
           map at_token_count (attributes db') =
             map (\<lambda>r. at_token_count r + (if at_id r = aid then int (length inserted) else 0))
                 (attributes db)))"
  by (auto simp: insertAttribute_def insertTokenAttribute_def Let_def)

theorem counters_follow_inserted_rows_witness:
  "map ak_attribute_count (attribute_keys (snd (insertAttribute ''col'' 1 (levelAttr ''5'') 9 racedDb))) = [1] \<and>
   map ak_attribute_count (attribute_keys (snd (insertAttribute ''col'' 1 (levelAttr ''7'') 9 racedDb))) = [2] \<and>
   map at_token_count (attributes (insertTokenAttribute levelJob 1 (levelAttr ''5'') racedDb)) = [2] \<and>
   map at_token_count (attributes (insertTokenAttribute levelJob 1 (levelAttr ''5'')
      (insertTokenAttribute levelJob 1 (levelAttr ''5'') racedDb))) = [2]"
  using counters_follow_inserted_rows[where coll = "''col''" and kid = 1 and a = "levelAttr ''5''"
      and now = 9 and db = racedDb and job = levelJob and aid = 1]
  by (simp add: insertAttribute_def insertTokenAttribute_def Let_def racedDb_def levelKeyRow_def
      levelFiveRow_def levelAttr_def attrMatches_def linkMatches_def levelJob_def freshId_def
      oneOrNone_def limit1_def orNull_def sampleImageUpdate_None)









section \<open>Replaying a metadata job\<close>

lemma plainKey_update [simp]: "plainKey (k\<lparr> ak_info := newInfo v k \<rparr>)"
  by (simp add: plainKey_def newInfo_def)

lemma plainKey_count [simp]: "plainKey (k\<lparr> ak_attribute_count := n \<rparr>) = plainKey k"
  by (simp add: plainKey_def)


lemma filter_map_preserving:
  "(\<And>r. P (f r) = P r) \<Longrightarrow> filter P (map f xs) = map f (filter P xs)"
  by (induction xs) auto









lemma attrSettled_link:
  assumes "attrSettled a kid aid attrs"
  shows "attrSettled a kid aid
           (map (\<lambda>r. if at_id r = i then r\<lparr> at_token_count := g r, at_sample_images := h r \<rparr> else r) attrs)"
proof -
  from assms obtain r where r: "filter (attrMatches kid (a_value a)) attrs = [r]" "at_id r = aid"
    "aid \<noteq> 0" by (auto simp: attrSettled_def)
  let ?f = "\<lambda>r. if at_id r = i then r\<lparr> at_token_count := g r, at_sample_images := h r \<rparr> else r"
  have "filter (attrMatches kid (a_value a)) (map ?f attrs) = map ?f (filter (attrMatches kid (a_value a)) attrs)"
    by (rule filter_map_preserving) (simp add: attrMatches_def)
  then have "filter (attrMatches kid (a_value a)) (map ?f attrs) = [?f r]" using r(1) by simp
  moreover have "at_id (?f r) = aid" using r(2) by simp
  ultimately show ?thesis using r(3) unfolding attrSettled_def by blast
qed




lemma at_id_linkUpdate [simp]: "at_id (linkUpdate job i n r) = at_id r"
  by (simp add: linkUpdate_def)

lemma attrMatches_linkUpdate [simp]:
  "attrMatches kid v (linkUpdate job i n r) = attrMatches kid v r"
  by (simp add: linkUpdate_def attrMatches_def)







lemma truthyId_None: "truthyId r = None \<Longrightarrow> r = None \<or> r = Some 0"
  by (auto simp: truthyId_def split: option.splits if_splits)


lemma filter_single_ex: "filter P xs = [k] \<Longrightarrow> list_ex P xs"
  by (metis filter_empty_conv list.distinct(1) list_ex_iff)







lemma settled_cong:
  "attribute_keys db' = attribute_keys db \<Longrightarrow> attributes db' = attributes db \<Longrightarrow>
   settled job a aid db' = settled job a aid db"
  by (simp add: settled_def)




















section \<open>Properties of the bid event feed\<close>

lemma cursorOk_trans:
  "cursorOk dir (eventKey a) b \<Longrightarrow> cursorOk dir (eventKey b) c \<Longrightarrow> cursorOk dir (eventKey a) c"
  by (auto simp: cursorOk_def split: sort_direction.splits)

lemma cursorOk_asym:
  "cursorOk dir (eventKey a) b \<Longrightarrow> \<not> cursorOk dir (eventKey b) a"
  by (auto simp: cursorOk_def split: sort_direction.splits)

lemma cursorOk_irrefl: "\<not> cursorOk dir (eventKey a) a"
  by (auto simp: cursorOk_def split: sort_direction.splits)

lemma filter_after_nth:
  assumes "sorted_wrt (\<lambda>a b. cursorOk dir (eventKey a) b) xs" "0 < n" "n \<le> length xs"
  shows "filter (cursorOk dir (eventKey (xs ! (n - 1)))) xs = drop n xs"
proof -
  let ?x = "xs ! (n - 1)"
  have split: "xs = take n xs @ drop n xs" by simp
  have cross: "\<forall>a\<in>set (take n xs). \<forall>b\<in>set (drop n xs). cursorOk dir (eventKey a) b"
    using assms(1) by (metis append_take_drop_id sorted_wrt_append)
  have srt0: "sorted_wrt (\<lambda>a b. cursorOk dir (eventKey a) b) (take n xs)"
    using assms(1) by (metis append_take_drop_id sorted_wrt_append)
  have xin: "?x \<in> set (take n xs)"
    using assms(2,3) by (metis One_nat_def Suc_pred' in_set_conv_nth length_take lessI min.absorb2 nth_take)
  have lastx: "take n xs = take (n - 1) xs @ [?x]"
    using assms(2,3) by (metis One_nat_def Suc_pred' less_le_trans lessI take_Suc_conv_app_nth)
  have srt1: "sorted_wrt (\<lambda>a b. cursorOk dir (eventKey a) b) (take (n - 1) xs @ [?x])"
    using srt0 lastx by simp
  have before: "\<And>y. y \<in> set (take n xs) \<Longrightarrow> \<not> cursorOk dir (eventKey ?x) y"
  proof -
    fix y assume "y \<in> set (take n xs)"
    then have "y = ?x \<or> y \<in> set (take (n - 1) xs)" using lastx by auto
    then show "\<not> cursorOk dir (eventKey ?x) y"
    proof
      assume "y = ?x" then show ?thesis by (simp add: cursorOk_irrefl)
    next
      assume "y \<in> set (take (n - 1) xs)"
      then have "cursorOk dir (eventKey y) ?x" using srt1 by (auto simp: sorted_wrt_append)
      then show ?thesis by (rule cursorOk_asym)
    qed
  qed
  have after: "\<And>y. y \<in> set (drop n xs) \<Longrightarrow> cursorOk dir (eventKey ?x) y"
    using cross xin by blast
  have "filter (cursorOk dir (eventKey ?x)) (take n xs) = []"
    using before by (auto simp: filter_empty_conv)
  moreover have "filter (cursorOk dir (eventKey ?x)) (drop n xs) = drop n xs"
    using after by (auto simp: filter_id_conv)
  ultimately show ?thesis by (metis append_Nil filter_append split)
qed

lemma orderBy_filter:
  "orderBy dir (filter P xs) = filter P (orderBy dir xs)"
proof (cases dir)
  case Asc
  then show ?thesis by (simp add: orderBy_def filter_sort)
next
  case Desc
  then show ?thesis by (simp add: orderBy_def) (metis filter_sort rev_filter)
qed

lemma orderBy_strict:
  assumes "distinct (map e_id xs)"
  shows "sorted_wrt (\<lambda>a b. cursorOk dir (eventKey a) b) (orderBy dir xs)"
proof -
  have inj: "distinct (map eventKey xs)"
    using assms by (induction xs) (auto simp: eventKey_def)
  have d: "distinct (map eventKey (sort_key eventKey xs))"
    using inj by (metis distinct_map distinct_sort set_sort)
  have "sorted (map eventKey (sort_key eventKey xs))" by simp
  with d have s: "sorted_wrt (<) (map eventKey (sort_key eventKey xs))"
    by (simp add: strict_sorted_iff)
  then have asc: "sorted_wrt (\<lambda>a b. eventKey a < eventKey b) (sort_key eventKey xs)"
    by (simp add: sorted_wrt_map)
  show ?thesis
  proof (cases dir)
    case Asc
    then show ?thesis using asc by (simp add: orderBy_def cursorOk_def)
  next
    case Desc
    then show ?thesis using asc by (simp add: orderBy_def cursorOk_def sorted_wrt_rev)
  qed
qed


lemma conditions_with_cursor:
  assumes "q_continuation q0 = None"
  shows "filter (feedConditions (q0\<lparr>q_continuation := Some c\<rparr>)) evs =
         filter (cursorOk (q_sortDirection q0) c) (filter (feedConditions q0) evs)"
  using assms by (auto simp: feedConditions_def startOf_def endOf_def intro: filter_cong)

lemma handler_short:
  assumes "orderBy (q_sortDirection q) (filter (feedConditions q) evs) = T" "length T < q_limit q"
  shows "handler evs q = Inr \<lparr> p_events = T, p_continuation = None \<rparr>"
  using assms by (simp add: handler_def Let_def)

lemma handler_full:
  assumes "orderBy (q_sortDirection q) (filter (feedConditions q) evs) = T"
    "q_limit q \<le> length T" "1 \<le> q_limit q"
  shows "handler evs q = Inr \<lparr> p_events = take (q_limit q) T,
           p_continuation = Some (eventKey (T ! (q_limit q - 1))) \<rparr>"
proof -
  have len: "length (take (q_limit q) T) = q_limit q" using assms(2) by simp
  then have ne: "take (q_limit q) T \<noteq> []" using assms(3) by auto
  have "last (take (q_limit q) T) = T ! (q_limit q - 1)"
    using ne len assms(2,3) by (simp add: last_conv_nth)
  then show ?thesis
    using assms(1) len ne by (auto simp: handler_def Let_def split: list.splits)
qed

lemma follow_suffix:
  assumes srt: "sorted_wrt (\<lambda>a b. cursorOk (q_sortDirection q0) (eventKey a) b)
                  (orderBy (q_sortDirection q0) (filter (feedConditions q0) evs))"
    and none: "q_continuation q0 = None"
    and lim: "1 \<le> q_limit q0"
  shows "orderBy (q_sortDirection q0) (filter (feedConditions q0) evs) = A @ T \<Longrightarrow>
         orderBy (q_sortDirection q0) (filter (feedConditions (q0\<lparr>q_continuation := cur\<rparr>)) evs) = T \<Longrightarrow>
         \<exists>pages. followFeed evs (q0\<lparr>q_continuation := cur\<rparr>) = Inr pages \<and>
                 concat (map p_events pages) = T \<and> pagesWellFormed (q_limit q0) pages"
proof (induction "length T" arbitrary: T A cur rule: less_induct)
  case less
  let ?q = "q0\<lparr>q_continuation := cur\<rparr>"
  let ?n = "q_limit q0"
  let ?dir = "q_sortDirection q0"
  have rows: "orderBy (q_sortDirection ?q) (filter (feedConditions ?q) evs) = T"
    using less.prems(2) by simp
  show ?case
  proof (cases "length T < ?n")
    case True
    have "handler evs ?q = Inr \<lparr> p_events = T, p_continuation = None \<rparr>"
      using handler_short[OF rows] True by simp
    then have "followFeed evs ?q = Inr [\<lparr> p_events = T, p_continuation = None \<rparr>]"
      by (subst followFeed.simps) simp
    then show ?thesis using True by (simp add: pagesWellFormed_def)
  next
    case False
    then have ge: "?n \<le> length T" by simp
    let ?c = "eventKey (T ! (?n - 1))"
    let ?p = "\<lparr> p_events = take ?n T, p_continuation = Some ?c \<rparr>"
    have h: "handler evs ?q = Inr ?p"
      using handler_full[OF rows] ge lim by simp
    have sT: "sorted_wrt (\<lambda>a b. cursorOk ?dir (eventKey a) b) T"
      using srt less.prems(1) by (simp add: sorted_wrt_append)
    have xin: "T ! (?n - 1) \<in> set T" using ge lim by simp
    have "\<And>a. a \<in> set A \<Longrightarrow> \<not> cursorOk ?dir ?c a"
    proof -
      fix a assume "a \<in> set A"
      then have "cursorOk ?dir (eventKey a) (T ! (?n - 1))"
        using srt less.prems(1) xin by (simp add: sorted_wrt_append)
      then show "\<not> cursorOk ?dir ?c a" by (rule cursorOk_asym)
    qed
    then have fA: "filter (cursorOk ?dir ?c) A = []" by (auto simp: filter_empty_conv)
    have fT: "filter (cursorOk ?dir ?c) T = drop ?n T"
      using filter_after_nth[OF sT _ ge] lim by simp
    have "orderBy ?dir (filter (feedConditions (q0\<lparr>q_continuation := Some ?c\<rparr>)) evs) =
          orderBy ?dir (filter (cursorOk ?dir ?c) (filter (feedConditions q0) evs))"
      by (simp only: conditions_with_cursor[OF none])
    also have "\<dots> = filter (cursorOk ?dir ?c) (orderBy ?dir (filter (feedConditions q0) evs))"
      by (rule orderBy_filter)
    also have "\<dots> = filter (cursorOk ?dir ?c) (A @ T)"
      by (simp only: less.prems(1))
    also have "\<dots> = drop ?n T"
      using fA fT by simp
    finally have next_rows:
      "orderBy ?dir (filter (feedConditions (q0\<lparr>q_continuation := Some ?c\<rparr>)) evs) = drop ?n T" .
    have split: "orderBy ?dir (filter (feedConditions q0) evs) = (A @ take ?n T) @ drop ?n T"
      using less.prems(1) by simp
    have shorter: "length (drop ?n T) < length T" using ge lim by simp
    from less.hyps[OF shorter split next_rows]
    obtain pages where f: "followFeed evs (q0\<lparr>q_continuation := Some ?c\<rparr>) = Inr pages"
      and c: "concat (map p_events pages) = drop ?n T"
      and w: "pagesWellFormed ?n pages" by blast
    have "followFeed evs ?q = Inr (?p # pages)"
      using h f by (subst followFeed.simps) simp
    moreover have "concat (map p_events (?p # pages)) = T" using c by simp
    moreover have "pagesWellFormed ?n (?p # pages)"
      using w ge by (auto simp: pagesWellFormed_def)
    ultimately show ?thesis by blast
  qed
qed

lemma follow_all_pages:
  assumes "distinct (map e_id evs)" and "1 \<le> q_limit q" and "q_continuation q = None"
  shows "\<exists>pages. followFeed evs q = Inr pages \<and>
           concat (map p_events pages) = orderBy (q_sortDirection q) (filter (feedConditions q) evs) \<and>
           set (concat (map p_events pages)) = {e \<in> set evs. feedConditions q e} \<and>
           distinct (concat (map p_events pages)) \<and>
           sorted_wrt (\<lambda>a b. cursorOk (q_sortDirection q) (eventKey a) b) (concat (map p_events pages)) \<and>
           pagesWellFormed (q_limit q) pages"
proof -
  let ?S = "orderBy (q_sortDirection q) (filter (feedConditions q) evs)"
  have d: "distinct (map e_id (filter (feedConditions q) evs))"
    using assms(1) by (simp add: distinct_map_filter)
  have srt: "sorted_wrt (\<lambda>a b. cursorOk (q_sortDirection q) (eventKey a) b) ?S"
    by (rule orderBy_strict[OF d])
  have qq: "q\<lparr>q_continuation := None\<rparr> = q" using assms(3) by simp
  have "\<exists>pages. followFeed evs (q\<lparr>q_continuation := None\<rparr>) = Inr pages \<and>
          concat (map p_events pages) = ?S \<and> pagesWellFormed (q_limit q) pages"
    by (rule follow_suffix[OF srt assms(3) assms(2), where A = "[]"]) (simp_all add: qq)
  then obtain pages where f: "followFeed evs q = Inr pages"
    and c: "concat (map p_events pages) = ?S" and w: "pagesWellFormed (q_limit q) pages"
    using qq by auto
  have s: "set ?S = {e \<in> set evs. feedConditions q e}"
    by (cases "q_sortDirection q") (auto simp: orderBy_def)
  have "distinct evs" using assms(1) by (simp add: distinct_map)
  then have dS: "distinct ?S"
    by (cases "q_sortDirection q") (simp_all add: orderBy_def)
  have "followFeed evs q = Inr pages \<and>
        concat (map p_events pages) = ?S \<and>
        set (concat (map p_events pages)) = {e \<in> set evs. feedConditions q e} \<and>
        distinct (concat (map p_events pages)) \<and>
        sorted_wrt (\<lambda>a b. cursorOk (q_sortDirection q) (eventKey a) b) (concat (map p_events pages)) \<and>
        pagesWellFormed (q_limit q) pages"
    unfolding c using f w s dS srt by simp
  then show ?thesis by (rule exI)
qed

lemma distinct_count_list_one: "distinct xs \<Longrightarrow> x \<in> set xs \<Longrightarrow> count_list xs x = 1"
  by (induction xs) (auto simp: count_list_0_iff)

lemma matchesRequest_passes:
  "q_continuation q = None \<Longrightarrow> matchesRequest q e \<Longrightarrow> feedConditions q e"
  by (auto simp: matchesRequest_def feedConditions_def startOf_def endOf_def split: option.splits)

lemma feedConditions_exact:
  "q_continuation q = None \<Longrightarrow> q_endTimestamp q \<noteq> Some 0 \<Longrightarrow> q_contract q \<noteq> Some [] \<Longrightarrow>
   feedConditions q e = matchesRequest q e"
  by (auto simp: matchesRequest_def feedConditions_def startOf_def endOf_def split: option.splits)

text \<open>
  C3. For a log with distinct ids, a limit of at least 1 and no continuation in the first
  request, following the continuations ends. The pages put together hold every event that
  matches the request (its contract and its time window, as requested) exactly once, hold
  no event twice, and are in strict (createdAt, id) order of the chosen direction; every
  page but the last has \<open>limit\<close> rows and a continuation, the last has fewer rows and none.
  They hold nothing but the matching events, unless the request gives \<open>endTimestamp = 0\<close>
  (or an empty contract), which the handler takes for no bound at all.
\<close>

theorem feed_pagination_complete:
  assumes "distinct (map e_id evs)" and "1 \<le> q_limit q" and "q_continuation q = None"
  shows "\<exists>pages. followFeed evs q = Inr pages \<and>
           (\<forall>e\<in>set evs. matchesRequest q e \<longrightarrow> count_list (concat (map p_events pages)) e = 1) \<and>
           (q_endTimestamp q \<noteq> Some 0 \<and> q_contract q \<noteq> Some [] \<longrightarrow>
              set (concat (map p_events pages)) = {e \<in> set evs. matchesRequest q e}) \<and>
           set (concat (map p_events pages)) \<subseteq> set evs \<and>
           distinct (concat (map p_events pages)) \<and>
           sorted_wrt (\<lambda>a b. cursorOk (q_sortDirection q) (eventKey a) b) (concat (map p_events pages)) \<and>
           pagesWellFormed (q_limit q) pages"
proof -
  from follow_all_pages[OF assms] obtain pages where
    f: "followFeed evs q = Inr pages"
    and s: "set (concat (map p_events pages)) = {e \<in> set evs. feedConditions q e}"
    and d: "distinct (concat (map p_events pages))"
    and o: "sorted_wrt (\<lambda>a b. cursorOk (q_sortDirection q) (eventKey a) b) (concat (map p_events pages))"
    and w: "pagesWellFormed (q_limit q) pages"
    by blast
  have once: "\<forall>e\<in>set evs. matchesRequest q e \<longrightarrow> count_list (concat (map p_events pages)) e = 1"
  proof (intro ballI impI)
    fix e assume "e \<in> set evs" "matchesRequest q e"
    then have "e \<in> set (concat (map p_events pages))"
      unfolding s using matchesRequest_passes[OF assms(3)] by blast
    then show "count_list (concat (map p_events pages)) e = 1"
      by (rule distinct_count_list_one[OF d])
  qed
  have exact: "q_endTimestamp q \<noteq> Some 0 \<and> q_contract q \<noteq> Some [] \<longrightarrow>
      set (concat (map p_events pages)) = {e \<in> set evs. matchesRequest q e}"
    unfolding s using feedConditions_exact[OF assms(3)] by blast
  have sub: "set (concat (map p_events pages)) \<subseteq> set evs" unfolding s by blast
  have "followFeed evs q = Inr pages \<and>
           (\<forall>e\<in>set evs. matchesRequest q e \<longrightarrow> count_list (concat (map p_events pages)) e = 1) \<and>
           (q_endTimestamp q \<noteq> Some 0 \<and> q_contract q \<noteq> Some [] \<longrightarrow>
              set (concat (map p_events pages)) = {e \<in> set evs. matchesRequest q e}) \<and>
           set (concat (map p_events pages)) \<subseteq> set evs \<and>
           distinct (concat (map p_events pages)) \<and>
           sorted_wrt (\<lambda>a b. cursorOk (q_sortDirection q) (eventKey a) b) (concat (map p_events pages)) \<and>
           pagesWellFormed (q_limit q) pages"
    using f once exact sub d o w by blast
  then show ?thesis by (rule exI)
qed

lemma feedLog_follow:
  "followFeed feedLog feedQuery =
     Inr [\<lparr> p_events = [bidEvent 1 10 ''0xc'', bidEvent 2 10 ''0xc''], p_continuation = Some (10, 2) \<rparr>,
          \<lparr> p_events = [bidEvent 3 20 ''0xc''], p_continuation = None \<rparr>]"
  apply (subst followFeed.simps)
  apply (subst followFeed.simps)
  apply (simp add: handler_def Let_def orderBy_def feedConditions_def feedQuery_def feedLog_def bidEvent_def startOf_def
      endOf_def eventKey_def cursorOk_def)
  done

lemma feedLog_matching:
  "{e \<in> set feedLog. matchesRequest feedQuery e} =
     {bidEvent 1 10 ''0xc'', bidEvent 2 10 ''0xc'', bidEvent 3 20 ''0xc''}"
  by (auto simp: feedLog_def feedQuery_def matchesRequest_def bidEvent_def)

theorem feed_pagination_complete_witness:
  "\<exists>pages. followFeed feedLog feedQuery = Inr pages \<and>
      pages = [\<lparr> p_events = [bidEvent 1 10 ''0xc'', bidEvent 2 10 ''0xc''], p_continuation = Some (10, 2) \<rparr>,
               \<lparr> p_events = [bidEvent 3 20 ''0xc''], p_continuation = None \<rparr>] \<and>
      set (concat (map p_events pages)) = {e \<in> set feedLog. matchesRequest feedQuery e} \<and>
      count_list (concat (map p_events pages)) (bidEvent 2 10 ''0xc'') = 1 \<and>
      distinct (concat (map p_events pages)) \<and> pagesWellFormed 2 pages"
proof -
  have 1: "distinct (map e_id feedLog)" by (simp add: feedLog_def bidEvent_def)
  have 2: "1 \<le> q_limit feedQuery" by (simp add: feedQuery_def)
  have 3: "q_continuation feedQuery = None" by (simp add: feedQuery_def)
  have 4: "q_endTimestamp feedQuery \<noteq> Some 0 \<and> q_contract feedQuery \<noteq> Some []"
    "q_limit feedQuery = 2" by (simp_all add: feedQuery_def)
  have 5: "bidEvent 2 10 ''0xc'' \<in> set feedLog" "matchesRequest feedQuery (bidEvent 2 10 ''0xc'')"
    by (simp_all add: feedLog_def feedQuery_def matchesRequest_def bidEvent_def)
  from feed_pagination_complete[OF 1 2 3] obtain pages where
    f: "followFeed feedLog feedQuery = Inr pages"
    and once: "\<forall>e\<in>set feedLog. matchesRequest feedQuery e \<longrightarrow>
                 count_list (concat (map p_events pages)) e = 1"
    and exact: "set (concat (map p_events pages)) = {e \<in> set feedLog. matchesRequest feedQuery e}"
    and d: "distinct (concat (map p_events pages))"
    and w: "pagesWellFormed 2 pages"
    using 4 by auto
  have p: "pages = [\<lparr> p_events = [bidEvent 1 10 ''0xc'', bidEvent 2 10 ''0xc''], p_continuation = Some (10, 2) \<rparr>,
               \<lparr> p_events = [bidEvent 3 20 ''0xc''], p_continuation = None \<rparr>]"
    using f by (simp add: feedLog_follow)
  have c: "count_list (concat (map p_events pages)) (bidEvent 2 10 ''0xc'') = 1"
    using once 5 by blast
  show ?thesis using f p exact c d w by blast
qed

text \<open>
  The falsy bound. The request \<open>feedQueryZero\<close> asks for the events of the contract created
  at 0 at the latest, which the log has none of; the handler replaces the bound by the
  default and the feed returns the five events of the contract.
\<close>

lemma feed_end_zero_returns_later_events:
  "{e \<in> set feedLog. matchesRequest feedQueryZero e} = {} \<and>
   (\<exists>pages. followFeed feedLog feedQueryZero = Inr pages \<and>
      concat (map p_events pages) =
        [bidEvent 6 2 ''0xc'', bidEvent 1 10 ''0xc'', bidEvent 2 10 ''0xc'', bidEvent 3 20 ''0xc'',
         bidEvent 5 30 ''0xc''])"
proof -
  have 1: "distinct (map e_id feedLog)" by (simp add: feedLog_def bidEvent_def)
  have 2: "1 \<le> q_limit feedQueryZero" by (simp add: feedQueryZero_def feedQuery_def)
  have 3: "q_continuation feedQueryZero = None" by (simp add: feedQueryZero_def feedQuery_def)
  have rows: "orderBy (q_sortDirection feedQueryZero) (filter (feedConditions feedQueryZero) feedLog) =
      [bidEvent 6 2 ''0xc'', bidEvent 1 10 ''0xc'', bidEvent 2 10 ''0xc'', bidEvent 3 20 ''0xc'',
       bidEvent 5 30 ''0xc'']"
    by (simp add: orderBy_def feedConditions_def feedQueryZero_def feedQuery_def feedLog_def
        bidEvent_def startOf_def endOf_def eventKey_def)
  have none: "{e \<in> set feedLog. matchesRequest feedQueryZero e} = {}"
    by (auto simp: feedLog_def feedQueryZero_def feedQuery_def matchesRequest_def bidEvent_def)
  from follow_all_pages[OF 1 2 3] show ?thesis using rows none by auto
qed

end
